theory Spec2Isabelle
  imports Main "HOL-Library.Sublist"
begin

section \<open>Strings and numbers of the host language\<close>

text \<open>
  The networking component of the SDK is written in JavaScript. The few string
  primitives it relies on are written out here: \<open>String.prototype.indexOf\<close>,
  \<open>String.prototype.replace\<close> with a string pattern (first occurrence only),
  \<open>String.prototype.split\<close> followed by \<open>[0]\<close>, \<open>Number.prototype.toString\<close> on
  integers and \<open>Array.prototype.join\<close>.
\<close>

fun indexOf_from :: "int \<Rightarrow> string \<Rightarrow> string \<Rightarrow> int" where
  "indexOf_from i [] p = (if p = [] then i else - 1)"
| "indexOf_from i (c # cs) p =
     (if prefix p (c # cs) then i else indexOf_from (i + 1) cs p)"

definition indexOf :: "string \<Rightarrow> string \<Rightarrow> int" where
  "indexOf s p = indexOf_from 0 s p"

text \<open>
  \<open>s.replace(p, r)\<close> for a string pattern \<open>p\<close>: the first occurrence of \<open>p\<close> is
  replaced, a string without \<open>p\<close> is returned as it is. The replacement strings built
  by \<open>nextOrigin\<close> are \<open>'ps'\<close> followed by decimal digits or by a segment of a UUID, so
  the \<open>$\<close> patterns of the replacement text do not occur.
\<close>

fun replace :: "string \<Rightarrow> string \<Rightarrow> string \<Rightarrow> string" where
  "replace [] p r = (if p = [] then r else [])"
| "replace (c # cs) p r =
     (if prefix p (c # cs) then r @ drop (length p) (c # cs) else c # replace cs p r)"

definition split_first :: "char \<Rightarrow> string \<Rightarrow> string" where
  \<comment> \<open>\<open>s.split(sep)[0]\<close> for a one-character separator\<close>
  "split_first sep s = takeWhile (\<lambda>c. c \<noteq> sep) s"

fun digits :: "nat \<Rightarrow> string" where
  "digits n =
     (if n < 10 then [''0123456789'' ! n]
      else digits (n div 10) @ [''0123456789'' ! (n mod 10)])"

declare digits.simps [simp del]

definition toString :: "int \<Rightarrow> string" where
  "toString i = (if i < 0 then CHR ''-'' # digits (nat (- i)) else digits (nat i))"

section \<open>The networking instance\<close>

text \<open>
  The collaborators the class only reads: the keychain (each getter returns a string
  or is absent) and the configuration.
\<close>

record keychain =
  subscribeKey :: "string option"
  publishKey :: "string option"
  secretKey :: "string option"
  authKey :: "string option"
  UUID :: "string option"
  instanceId :: "string option"

record config =
  instanceIdEnabled :: bool
  transactionalRequestTimeout :: int
  subscribeRequestTimeout :: int

text \<open>
  Values stored in a parameter object or placed in a URL array. A parameter object is an
  association list: keys in insertion order, each key at most once when it is built by
  the operations below.
\<close>

datatype jsval = JUndefined | JNull | JBool bool | JNum int | JStr string

type_synonym params = "(string \<times> jsval) list"

record networking =
  sendBeacon :: "(string \<Rightarrow> bool) option"
  keychain :: keychain
  config :: config
  maxSubDomain :: int
  currentSubDomain :: int
  standardOrigin :: string
  subscribeOrigin :: string
  providedFQDN :: string
  coreParams :: params

section \<open>Origin rotation\<close>

text \<open>
  \<open>nextOrigin(failover)\<close>. The argument \<open>uuid\<close> is what \<open>utils.generateUUID()\<close>
  returns when the failover branch calls it; the other branches do not read it. The
  result is the returned origin and the instance after the call.
\<close>

definition nextOrigin :: "string \<Rightarrow> bool \<Rightarrow> networking \<Rightarrow> string \<times> networking" where
  "nextOrigin uuid failover n =
     (if indexOf (providedFQDN n) ''pubsub.'' = - 1 then (providedFQDN n, n)
      else if failover then
        (replace (providedFQDN n) ''pubsub'' (''ps'' @ split_first CHR ''-'' uuid), n)
      else
        (let c = currentSubDomain n + 1;
             c' = (if c \<ge> maxSubDomain n then 1 else c);
             n' = n\<lparr>currentSubDomain := c'\<rparr>
         in (replace (providedFQDN n') ''pubsub'' (''ps'' @ toString (currentSubDomain n')), n')))"

definition shiftStandardOrigin :: "string \<Rightarrow> bool \<Rightarrow> networking \<Rightarrow> string \<times> networking" where
  "shiftStandardOrigin uuid failover n =
     (let (origin, n') = nextOrigin uuid failover n
      in (origin, n'\<lparr>standardOrigin := origin\<rparr>))"

definition shiftSubscribeOrigin :: "string \<Rightarrow> bool \<Rightarrow> networking \<Rightarrow> string \<times> networking" where
  "shiftSubscribeOrigin uuid failover n =
     (let (origin, n') = nextOrigin uuid failover n
      in (origin, n'\<lparr>subscribeOrigin := origin\<rparr>))"

text \<open>
  The constructor. \<open>r\<close> is the value of \<open>Math.floor(Math.random() * 20)\<close>, an integer
  from 0 to 19. Both origins are resolved once, without failover.
\<close>

definition constructor ::
  "config \<Rightarrow> keychain \<Rightarrow> (string \<Rightarrow> bool) option \<Rightarrow> int \<Rightarrow> bool \<Rightarrow> string \<Rightarrow> networking" where
  "constructor cfg kc beacon r ssl origin =
     (let n0 = \<lparr>sendBeacon = beacon, keychain = kc, config = cfg,
                maxSubDomain = 20, currentSubDomain = r,
                standardOrigin = [], subscribeOrigin = [],
                providedFQDN = (if ssl then ''https://'' else ''http://'') @ origin,
                coreParams = []\<rparr>;
          n1 = snd (shiftStandardOrigin [] False n0)
      in snd (shiftSubscribeOrigin [] False n1))"

text \<open>\<open>k\<close> calls of \<open>nextOrigin(false)\<close> in a row.\<close>

primrec nextOrigin_times :: "nat \<Rightarrow> networking \<Rightarrow> networking" where
  "nextOrigin_times 0 n = n"
| "nextOrigin_times (Suc k) n = snd (nextOrigin [] False (nextOrigin_times k n))"


section \<open>Parameter composition\<close>

text \<open>
  Properties every object created by an object literal inherits from
  \<open>Object.prototype\<close>. The operator \<open>key in data\<close> is true for the keys of the object
  itself and for these names.
\<close>

definition Object_prototype :: "string list" where
  "Object_prototype =
     [''constructor'', ''hasOwnProperty'', ''isPrototypeOf'', ''propertyIsEnumerable'',
      ''toLocaleString'', ''toString'', ''valueOf'', ''__proto__'',
      ''__defineGetter__'', ''__defineSetter__'', ''__lookupGetter__'', ''__lookupSetter__'']"

definition has_property :: "string \<Rightarrow> params \<Rightarrow> bool" where
  \<comment> \<open>\<open>key in data\<close>\<close>
  "has_property key data = (key \<in> set (map fst data) \<or> key \<in> set Object_prototype)"

fun put :: "string \<Rightarrow> jsval \<Rightarrow> params \<Rightarrow> params" where
  \<comment> \<open>\<open>data[key] = value\<close>\<close>
  "put key v [] = [(key, v)]"
| "put key v ((k, w) # d) = (if key = k then (k, v) # d else (k, w) # put key v d)"

definition get :: "params \<Rightarrow> string \<Rightarrow> jsval" where
  \<comment> \<open>\<open>data.key\<close> for a key that is not inherited\<close>
  "get data key = (case map_of data key of None \<Rightarrow> JUndefined | Some v \<Rightarrow> v)"

definition truthy :: "string option \<Rightarrow> bool" where
  \<comment> \<open>a keychain value in a condition: absent and the empty string are false\<close>
  "truthy k = (case k of None \<Rightarrow> False | Some s \<Rightarrow> s \<noteq> [])"

definition of_key :: "string option \<Rightarrow> jsval" where
  "of_key k = (case k of None \<Rightarrow> JUndefined | Some s \<Rightarrow> JStr s)"

text \<open>
  \<open>prepareParams(data)\<close>. \<open>utils.each\<close> visits the entries of the core parameters in
  order. The source writes into the object it was given; the model returns it.
\<close>

definition prepareParams :: "networking \<Rightarrow> params option \<Rightarrow> params" where
  "prepareParams n data =
     (let data0 = (case data of None \<Rightarrow> [] | Some d \<Rightarrow> d);
          data1 = fold (\<lambda>(key, v) d. if \<not> has_property key d then put key v d else d)
                    (coreParams n) data0
      in if instanceIdEnabled (config n)
         then put ''instanceid'' (of_key (instanceId (keychain n))) data1
         else data1)"

definition setCoreParams :: "params \<Rightarrow> networking \<Rightarrow> networking" where
  "setCoreParams ps n = n\<lparr>coreParams := ps\<rparr>"

definition addCoreParam :: "string \<Rightarrow> jsval \<Rightarrow> networking \<Rightarrow> networking" where
  "addCoreParam key v n = n\<lparr>coreParams := put key v (coreParams n)\<rparr>"

section \<open>Requests, callbacks and the transport\<close>

text \<open>
  What a call of an operation does to the outside is recorded as a list of effects, in
  order: an invocation of the completion callback with its two arguments, a request
  handed to the transport (verb, URL, query, timeout), a beacon handed to
  \<open>sendBeacon\<close>. A call either returns or raises.
\<close>

datatype js_error = TypeError string | ReferenceError string | SyntaxError string

datatype completion = Returned | Raised js_error

datatype 'e failure = ValidationError string | TransportError 'e | ResponseError 'e

datatype 'j payload = Parsed 'j | LeaveOK

datatype verb = GET | POST

datatype ('e, 'j) effect =
    Callback "'e failure option" "'j payload option"
  | Request verb string params int
  | Beacon string

type_synonym ('e, 'j) run = "completion \<times> ('e, 'j) effect list"

definition validationError :: "string \<Rightarrow> ('e, 'j) effect" where
  \<comment> \<open>\<open>callback(this._r.validationError(message))\<close>\<close>
  "validationError message = Callback (Some (ValidationError message)) None"

definition to_segment :: "jsval \<Rightarrow> string" where
  "to_segment v =
     (case v of JUndefined \<Rightarrow> [] | JNull \<Rightarrow> []
      | JBool b \<Rightarrow> (if b then ''true'' else ''false'')
      | JNum i \<Rightarrow> toString i | JStr s \<Rightarrow> s)"

fun join :: "string \<Rightarrow> jsval list \<Rightarrow> string" where
  "join sep [] = []"
| "join sep [x] = to_segment x"
| "join sep (x # y # ys) = to_segment x @ sep @ join sep (y # ys)"

definition xdr :: "networking \<Rightarrow> params \<Rightarrow> jsval list \<Rightarrow> int option \<Rightarrow> ('e, 'j) effect" where
  \<comment> \<open>\<open>_xdr({ data, url, timeout, callback })\<close>; \<open>timeout || default\<close>\<close>
  "xdr n data url timeout =
     Request GET (join ''/'' url) data
       (case timeout of None \<Rightarrow> transactionalRequestTimeout (config n)
        | Some t \<Rightarrow> if t = 0 then transactionalRequestTimeout (config n) else t)"

text \<open>
  \<open>JSON.parse\<close>. A JSON text starts, after white space, with the first character of a
  JSON value; on any other text \<open>JSON.parse\<close> throws a \<open>SyntaxError\<close>. What it does on
  the remaining texts is the parameter \<open>parse\<close>, \<open>None\<close> where it throws.
\<close>

definition json_whitespace :: "char \<Rightarrow> bool" where
  "json_whitespace c = (c \<in> set [CHR '' '', CHR 0x09, CHR 0x0A, CHR 0x0D])"

definition json_value_start :: "char \<Rightarrow> bool" where
  "json_value_start c = (c \<in> set ''{[\"-0123456789tfn'')"

definition JSON_parse :: "(string \<Rightarrow> 'j option) \<Rightarrow> string \<Rightarrow> 'j option" where
  "JSON_parse parse t =
     (case dropWhile json_whitespace t of
        [] \<Rightarrow> None
      | c # cs \<Rightarrow> if json_value_start c then parse t else None)"

record 'e response =
  resp_error :: "'e option"
  resp_text :: string

text \<open>
  The handler \<open>_abstractedXDR\<close> gives to the transport, run when the transport is done
  with \<open>err\<close> and \<open>resp\<close>.
\<close>

definition abstractedXDR_end ::
  "(string \<Rightarrow> 'j option) \<Rightarrow> 'e option \<Rightarrow> 'e response option \<Rightarrow> ('e, 'j) run" where
  "abstractedXDR_end parse err resp =
     (case err of
        Some e \<Rightarrow> (Returned, [Callback (Some (TransportError e)) None])
      | None \<Rightarrow>
         (case resp of
            None \<Rightarrow> (Raised (TypeError ''resp has no properties''), [])
          | Some r \<Rightarrow>
             (case resp_error r of
                Some e \<Rightarrow> (Returned, [Callback (Some (ResponseError e)) None])
              | None \<Rightarrow>
                 (case JSON_parse parse (resp_text r) of
                    None \<Rightarrow> (Raised (SyntaxError ''JSON.parse''), [])
                  | Some j \<Rightarrow> (Returned, [Callback None (Some (Parsed j))])))))"

fun is_Request :: "('e, 'j) effect \<Rightarrow> bool" where
  "is_Request (Request m u d t) = True"
| "is_Request _ = False"

fun is_Callback :: "('e, 'j) effect \<Rightarrow> bool" where
  "is_Callback (Callback e r) = True"
| "is_Callback _ = False"

definition callbacks :: "('e, 'j) effect list \<Rightarrow> nat" where
  "callbacks effs = length (filter is_Callback effs)"

definition requests :: "('e, 'j) effect list \<Rightarrow> nat" where
  "requests effs = length (filter is_Request effs)"

text \<open>
  An operation from its call to its end: when the call handed a request to the
  transport, the transport answers with \<open>err\<close> and \<open>resp\<close> and the handler runs.
\<close>

definition answered ::
  "(string \<Rightarrow> 'j option) \<Rightarrow> 'e option \<Rightarrow> 'e response option \<Rightarrow> ('e, 'j) run \<Rightarrow> ('e, 'j) run" where
  "answered parse err resp r =
     (case r of
        (Raised e, effs) \<Rightarrow> (Raised e, effs)
      | (Returned, effs) \<Rightarrow>
          if list_ex is_Request effs
          then (let (c, effs') = abstractedXDR_end parse err resp in (c, effs @ effs'))
          else (Returned, effs))"

section \<open>Operations\<close>

text \<open>
  \<open>utils.encode\<close> and \<open>utils.buildURL\<close> are parameters of the operations that call
  them, \<open>JSON.stringify\<close> of \<open>setState\<close>. Each operation is split into the URL array it
  builds and the call itself.
\<close>

definition fetchHistory_url :: "(jsval \<Rightarrow> string) \<Rightarrow> networking \<Rightarrow> string \<Rightarrow> jsval list" where
  "fetchHistory_url encode n channel =
     [JStr (standardOrigin n), JStr ''v2'', JStr ''history'', JStr ''sub-key'',
      of_key (subscribeKey (keychain n)), JStr ''channel'', JStr (encode (JStr channel))]"

definition with_auth :: "networking \<Rightarrow> params \<Rightarrow> params" where
  \<comment> \<open>\<open>if (this._keychain.getAuthKey()) data.auth = this._keychain.getAuthKey()\<close>\<close>
  "with_auth n data =
     (if truthy (authKey (keychain n)) then put ''auth'' (of_key (authKey (keychain n))) data
      else data)"

definition with_uuid :: "networking \<Rightarrow> params \<Rightarrow> params" where
  \<comment> \<open>\<open>if (this._keychain.getUUID()) data.uuid = this._keychain.getUUID()\<close>\<close>
  "with_uuid n data =
     (if truthy (UUID (keychain n)) then put ''uuid'' (of_key (UUID (keychain n))) data
      else data)"

definition fetchHistory ::
  "(jsval \<Rightarrow> string) \<Rightarrow> networking \<Rightarrow> string \<Rightarrow> params option \<Rightarrow> ('e, 'j) run" where
  "fetchHistory encode n channel incomingData =
     (if \<not> truthy (subscribeKey (keychain n))
      then (Returned, [validationError ''Missing Subscribe Key''])
      else
        (let url = fetchHistory_url encode n channel;
             data = prepareParams n incomingData;
             data = with_auth n data
         in (Returned, [xdr n data url None])))"

text \<open>
  The pieces of the signing operations that stand on their own. \<open>sign_input_prefix\<close> is
  the first value of \<open>sign_input\<close>: the subscribe key, the publish key and the name of
  the operation, each followed by a line feed. \<open>url_safe\<close> is the pair of global
  replacements applied to the signature, \<open>replace(/\+/g, '-')\<close> and then
  \<open>replace(/\//g, '_')\<close>.
\<close>

definition key_string :: "string option \<Rightarrow> string" where
  \<comment> \<open>a keychain value in a string concatenation\<close>
  "key_string k = (case k of None \<Rightarrow> ''undefined'' | Some s \<Rightarrow> s)"

definition sign_input_prefix :: "networking \<Rightarrow> string \<Rightarrow> string" where
  "sign_input_prefix n operation =
     key_string (subscribeKey (keychain n)) @ [CHR 0x0A] @
     key_string (publishKey (keychain n)) @ [CHR 0x0A] @
     operation @ [CHR 0x0A]"

definition url_safe :: "string \<Rightarrow> string" where
  "url_safe signature =
     map (\<lambda>c. if c = CHR ''/'' then CHR ''_'' else c)
       (map (\<lambda>c. if c = CHR ''+'' then CHR ''-'' else c) signature)"

text \<open>
  \<open>performGrant(authKey, data, callback)\<close>. The class has no member \<open>_error\<close> and no
  member \<open>_networking\<close>: its fields are \<open>_sendBeacon\<close>, \<open>_keychain\<close>, \<open>_config\<close>,
  \<open>_crypto\<close>, \<open>_maxSubDomain\<close>, \<open>_currentSubDomain\<close>, \<open>_standardOrigin\<close>,
  \<open>_subscribeOrigin\<close>, \<open>_providedFQDN\<close>, \<open>_requestTimeout\<close>, \<open>_coreParams\<close> and \<open>_r\<close>,
  and the constructor sets no other. So \<open>this._error(...)\<close> calls \<open>undefined\<close>, and
  \<open>this._networking.prepareParams\<close> reads a property of \<open>undefined\<close>: both throw a
  \<open>TypeError\<close>. The prefix of \<open>sign_input\<close> and the URL array are computed before
  that statement and have no effect outside. The statements after
  \<open>data = this._networking.prepareParams(data)\<close> (the test of the unbound name
  \<open>auth_key\<close>, the canonical string, the call of the undefined \<open>this._hmac_SHA256\<close>,
  the two replacements and the request) are never reached.
\<close>

definition performGrant :: "networking \<Rightarrow> string option \<Rightarrow> params option \<Rightarrow> ('e, 'j) run" where
  "performGrant n authKey' data =
     (if \<not> truthy (subscribeKey (keychain n))
      then (Raised (TypeError ''this._error is not a function''), [])
      else if \<not> truthy (publishKey (keychain n))
      then (Raised (TypeError ''this._error is not a function''), [])
      else if \<not> truthy (secretKey (keychain n))
      then (Raised (TypeError ''this._error is not a function''), [])
      else (Raised (TypeError ''this._networking is undefined''), []))"

text \<open>
  \<open>performAudit(authKey, data, callback)\<close>. Its first statement reads \<open>args.auth_key\<close>;
  no \<open>args\<close> is bound in the function, the class or the module, so the statement throws
  a \<open>ReferenceError\<close> and nothing after it runs.
\<close>

definition performAudit :: "networking \<Rightarrow> string option \<Rightarrow> params option \<Rightarrow> ('e, 'j) run" where
  "performAudit n authKey' data = (Raised (ReferenceError ''args is not defined''), [])"

definition performLeave_url :: "(jsval \<Rightarrow> string) \<Rightarrow> string \<Rightarrow> networking \<Rightarrow> string \<Rightarrow> jsval list" where
  "performLeave_url encode origin n channel =
     [JStr origin, JStr ''v2'', JStr ''presence'', JStr ''sub_key'',
      of_key (subscribeKey (keychain n)), JStr ''channel'', JStr (encode (JStr channel)),
      JStr ''leave'']"

text \<open>
  \<open>performLeave\<close> advances the origin, so the instance after the call is part of the
  result.
\<close>

definition performLeave ::
  "(jsval \<Rightarrow> string) \<Rightarrow> (jsval list \<Rightarrow> params \<Rightarrow> string) \<Rightarrow> networking \<Rightarrow> string \<Rightarrow>
     params option \<Rightarrow> ('e, 'j) run \<times> networking" where
  "performLeave encode buildURL n channel incomingData =
     (if \<not> truthy (subscribeKey (keychain n))
      then ((Returned, [validationError ''Missing Subscribe Key'']), n)
      else
        (let data = prepareParams n incomingData;
             (origin, n') = nextOrigin [] False n;
             url = performLeave_url encode origin n' channel;
             data = with_auth n' data;
             data = with_uuid n' data
         in case sendBeacon n' of
              Some beacon \<Rightarrow>
                (let target = buildURL url data
                 in if beacon target
                    then ((Returned, [Beacon target, Callback None (Some LeaveOK)]), n')
                    else ((Returned, [Beacon target]), n'))
            | None \<Rightarrow> ((Returned, [xdr n' data url None]), n')))"

definition fetchWhereNow_url :: "(jsval \<Rightarrow> string) \<Rightarrow> networking \<Rightarrow> string option \<Rightarrow> jsval list" where
  "fetchWhereNow_url encode n uuid =
     [JStr (standardOrigin n), JStr ''v2'', JStr ''presence'', JStr ''sub-key'',
      of_key (subscribeKey (keychain n)), JStr ''uuid'', JStr (encode (of_key uuid))]"

definition fetchWhereNow ::
  "(jsval \<Rightarrow> string) \<Rightarrow> networking \<Rightarrow> string option \<Rightarrow> ('e, 'j) run" where
  "fetchWhereNow encode n uuid =
     (if \<not> truthy (subscribeKey (keychain n))
      then (Returned, [validationError ''Missing Subscribe Key''])
      else
        (let data = prepareParams n (Some []);
             data = with_auth n data;
             uuid = (if \<not> truthy uuid then UUID (keychain n) else uuid);
             url = fetchWhereNow_url encode n uuid
         in (Returned, [xdr n data url None])))"

definition setState_url :: "networking \<Rightarrow> string \<Rightarrow> jsval list" where
  "setState_url n channel =
     [JStr (standardOrigin n), JStr ''v2'', JStr ''presence'', JStr ''sub-key'',
      of_key (subscribeKey (keychain n)), JStr ''channel'', JStr channel, JStr ''uuid'',
      of_key (UUID (keychain n)), JStr ''data'']"

definition setState ::
  "(jsval \<Rightarrow> jsval) \<Rightarrow> networking \<Rightarrow> string \<Rightarrow> params option \<Rightarrow> ('e, 'j) run" where
  "setState stringify n channel incomingData =
     (if \<not> truthy (subscribeKey (keychain n))
      then (Returned, [validationError ''Missing Subscribe Key''])
      else
        (let data = prepareParams n incomingData;
             url = setState_url n channel;
             data = with_auth n data;
             data = put ''state'' (stringify (get data ''state'')) data
         in (Returned, [xdr n data url None])))"

definition fetchState_url :: "networking \<Rightarrow> string option \<Rightarrow> string \<Rightarrow> jsval list" where
  "fetchState_url n uuid channel =
     [JStr (standardOrigin n), JStr ''v2'', JStr ''presence'', JStr ''sub-key'',
      of_key (subscribeKey (keychain n)), JStr ''channel'', JStr channel, JStr ''uuid'',
      of_key uuid]"

definition fetchState ::
  "networking \<Rightarrow> string option \<Rightarrow> string \<Rightarrow> params option \<Rightarrow> ('e, 'j) run" where
  "fetchState n uuid channel incomingData =
     (if \<not> truthy (subscribeKey (keychain n))
      then (Returned, [validationError ''Missing Subscribe Key''])
      else
        (let uuid = (if \<not> truthy uuid then UUID (keychain n) else uuid);
             data = prepareParams n incomingData;
             url = fetchState_url n uuid channel;
             data = with_auth n data
         in (Returned, [xdr n data url None])))"

text \<open>Instances used to evaluate the operations.\<close>

definition pool_instance :: networking where
  "pool_instance =
     \<lparr>sendBeacon = None,
      keychain = \<lparr>subscribeKey = Some ''sub-c-1'', publishKey = Some ''pub-c-1'',
        secretKey = Some ''sec-c-1'', authKey = None, UUID = Some ''u-1'',
        instanceId = Some ''inst-1''\<rparr>,
      config = \<lparr>instanceIdEnabled = True, transactionalRequestTimeout = 15000,
        subscribeRequestTimeout = 310000\<rparr>,
      maxSubDomain = 20, currentSubDomain = 19,
      standardOrigin = ''http://ps18.pubnub.com'',
      subscribeOrigin = ''http://ps19.pubnub.com'',
      providedFQDN = ''http://pubsub.pubnub.com'',
      coreParams = [(''pnsdk'', JStr ''PubNub-JS-Web/4.0.0'')]\<rparr>"

definition custom_instance :: networking where
  "custom_instance =
     pool_instance\<lparr>standardOrigin := ''https://relay.example.org'',
       subscribeOrigin := ''https://relay.example.org'',
       providedFQDN := ''https://relay.example.org''\<rparr>"

section \<open>Origin rotation: properties\<close>

text \<open>
  The pool instance of the examples is what the constructor builds for the default
  origin when the random start is 17, after the core parameters are set.
\<close>

lemma pool_instance_constructed:
  "pool_instance = setCoreParams [(''pnsdk'', JStr ''PubNub-JS-Web/4.0.0'')]
     (constructor (config pool_instance) (keychain pool_instance) None 17 False
        ''pubsub.pubnub.com'')"
  by (simp add: pool_instance_def setCoreParams_def constructor_def shiftStandardOrigin_def
      shiftSubscribeOrigin_def nextOrigin_def indexOf_def toString_def digits.simps Let_def)

lemma nextOrigin_pool_step:
  assumes "indexOf (providedFQDN n) ''pubsub.'' \<noteq> - 1"
  shows "snd (nextOrigin u False n) =
     n\<lparr>currentSubDomain :=
         (if currentSubDomain n + 1 \<ge> maxSubDomain n then 1 else currentSubDomain n + 1)\<rparr>"
  using assms by (simp add: nextOrigin_def Let_def)

lemma times_frame:
  "providedFQDN (nextOrigin_times k n) = providedFQDN n \<and> maxSubDomain (nextOrigin_times k n) = maxSubDomain n"
  by (induction k) (simp_all add: nextOrigin_def Let_def)

lemma wrap_step:
  fixes v :: int
  assumes "0 \<le> v" and "v \<le> 19"
  shows "(if v + 1 \<ge> 20 then 1 else v + 1) = v mod 19 + 1"
  using assms by (cases "v = 19") auto

lemma times_counter:
  assumes pool: "indexOf (providedFQDN n) ''pubsub.'' \<noteq> - 1"
    and size: "maxSubDomain n = 20"
    and lo: "0 \<le> currentSubDomain n" and hi: "currentSubDomain n < 20"
  shows "currentSubDomain (nextOrigin_times (Suc k) n) = (currentSubDomain n + int k) mod 19 + 1"
proof (induction k)
  case 0
  have "currentSubDomain (nextOrigin_times (Suc 0) n) =
      (if currentSubDomain n + 1 \<ge> 20 then 1 else currentSubDomain n + 1)"
    using nextOrigin_pool_step [OF pool] size by simp
  also have "\<dots> = currentSubDomain n mod 19 + 1"
    using lo hi by (intro wrap_step) auto
  finally show ?case by simp
next
  case (Suc k)
  let ?m = "nextOrigin_times (Suc k) n"
  have p: "indexOf (providedFQDN ?m) ''pubsub.'' \<noteq> - 1"
    using pool times_frame [of "Suc k" n] by simp
  have s: "maxSubDomain ?m = 20"
    using size times_frame [of "Suc k" n] by simp
  have "currentSubDomain (nextOrigin_times (Suc (Suc k)) n) =
      (if currentSubDomain ?m + 1 \<ge> 20 then 1 else currentSubDomain ?m + 1)"
    using nextOrigin_pool_step [OF p] s by simp
  also have "\<dots> = ((currentSubDomain n + int k) mod 19 + 1) mod 19 + 1"
    unfolding Suc.IH
    using pos_mod_bound [of 19 "currentSubDomain n + int k"]
      pos_mod_sign [of 19 "currentSubDomain n + int k"]
    by (intro wrap_step) auto
  also have "\<dots> = (currentSubDomain n + int (Suc k)) mod 19 + 1"
    by (simp add: mod_simps algebra_simps)
  finally show ?case .
qed

text \<open>
  Claim C3. For a pool origin (the provided name contains \<open>pubsub.\<close>) with pool size 20
  and a counter \<open>c\<close> with \<open>0 \<le> c < 20\<close>, \<open>k \<ge> 1\<close> calls of \<open>nextOrigin(false)\<close> leave
  the counter at \<open>(c + k - 1) mod (20 - 1) + 1\<close>. The counter is then between 1 and 19,
  never 0, and the origin returned by the \<open>k\<close>-th call is the provided name with
  \<open>pubsub\<close> replaced by \<open>ps\<close> and that counter in decimal.
\<close>

theorem nextOrigin_round_robin:
  assumes "indexOf (providedFQDN n) ''pubsub.'' \<noteq> - 1"
    and "maxSubDomain n = 20"
    and "0 \<le> currentSubDomain n" and "currentSubDomain n < 20"
    and "1 \<le> k"
  shows "currentSubDomain (nextOrigin_times k n) = (currentSubDomain n + int k - 1) mod (20 - 1) + 1
    \<and> 1 \<le> currentSubDomain (nextOrigin_times k n) \<and> currentSubDomain (nextOrigin_times k n) \<le> 19
    \<and> currentSubDomain (nextOrigin_times k n) \<noteq> 0
    \<and> fst (nextOrigin [] False (nextOrigin_times (k - 1) n)) =
        replace (providedFQDN n) ''pubsub'' (''ps'' @ toString (currentSubDomain (nextOrigin_times k n)))"
proof -
  from \<open>1 \<le> k\<close> obtain j where k: "k = Suc j" by (cases k) auto
  have c: "currentSubDomain (nextOrigin_times k n) = (currentSubDomain n + int k - 1) mod (20 - 1) + 1"
    using times_counter [OF assms(1-4), of j] k by (simp add: algebra_simps)
  have b: "1 \<le> currentSubDomain (nextOrigin_times k n) \<and> currentSubDomain (nextOrigin_times k n) \<le> 19"
    unfolding c
    using pos_mod_bound [of 19 "currentSubDomain n + int k - 1"]
      pos_mod_sign [of 19 "currentSubDomain n + int k - 1"]
    by simp
  have p: "indexOf (providedFQDN (nextOrigin_times j n)) ''pubsub.'' \<noteq> - 1"
    using assms(1) times_frame [of j n] by simp
  have o: "fst (nextOrigin [] False (nextOrigin_times (k - 1) n)) =
      replace (providedFQDN n) ''pubsub'' (''ps'' @ toString (currentSubDomain (nextOrigin_times k n)))"
    using p times_frame [of j n] k by (simp add: nextOrigin_def Let_def)
  from c b o show ?thesis by simp
qed

theorem nextOrigin_round_robin_witness:
  "indexOf (providedFQDN pool_instance) ''pubsub.'' \<noteq> - 1
   \<and> maxSubDomain pool_instance = 20
   \<and> 0 \<le> currentSubDomain pool_instance \<and> currentSubDomain pool_instance < 20
   \<and> (1::nat) \<le> 3
   \<and> currentSubDomain (nextOrigin_times 3 pool_instance) = 3
   \<and> fst (nextOrigin [] False (nextOrigin_times 2 pool_instance)) = ''http://ps3.pubnub.com''"
  using nextOrigin_round_robin [of pool_instance 3]
  by (simp add: pool_instance_def indexOf_def toString_def digits.simps)

text \<open>
  Claim C4. A custom origin is a provided name in which \<open>nextOrigin\<close> finds no
  \<open>pubsub.\<close>. For such an instance \<open>nextOrigin\<close> returns the provided name and the
  instance as it was, whether \<open>failover\<close> is true or false and whatever the random
  source gives.
\<close>

theorem nextOrigin_custom_identity:
  assumes "indexOf (providedFQDN n) ''pubsub.'' = - 1"
  shows "nextOrigin uuid failover n = (providedFQDN n, n)"
  using assms by (simp add: nextOrigin_def)

theorem nextOrigin_custom_identity_witness:
  "indexOf (providedFQDN custom_instance) ''pubsub.'' = - 1
   \<and> nextOrigin ''0e1f-aa'' True custom_instance = (''https://relay.example.org'', custom_instance)
   \<and> nextOrigin ''0e1f-aa'' False custom_instance = (''https://relay.example.org'', custom_instance)"
proof -
  have c: "indexOf (providedFQDN custom_instance) ''pubsub.'' = - 1"
    by (simp add: custom_instance_def pool_instance_def indexOf_def)
  have p: "providedFQDN custom_instance = ''https://relay.example.org''"
    by (simp add: custom_instance_def)
  show ?thesis
    using c nextOrigin_custom_identity [OF c, of "''0e1f-aa''" True]
      nextOrigin_custom_identity [OF c, of "''0e1f-aa''" False] p
    by simp
qed

text \<open>
  Claim C10. \<open>nextOrigin(true)\<close> returns the instance as it was, so the subdomain
  counter keeps its value and a following \<open>nextOrigin(false)\<close> gives what it would have
  given without the failover call. For a pool origin the returned origin is the
  provided name with \<open>pubsub\<close> replaced by \<open>ps\<close> and the first segment of the generated
  UUID.
\<close>

theorem nextOrigin_failover_frame:
  "snd (nextOrigin uuid True n) = n
   \<and> currentSubDomain (snd (nextOrigin uuid True n)) = currentSubDomain n
   \<and> nextOrigin uuid' False (snd (nextOrigin uuid True n)) = nextOrigin uuid' False n
   \<and> (indexOf (providedFQDN n) ''pubsub.'' \<noteq> - 1 \<longrightarrow>
        fst (nextOrigin uuid True n) =
          replace (providedFQDN n) ''pubsub'' (''ps'' @ split_first CHR ''-'' uuid))"
  by (simp add: nextOrigin_def)

theorem nextOrigin_failover_frame_witness:
  "indexOf (providedFQDN pool_instance) ''pubsub.'' \<noteq> - 1
   \<and> nextOrigin ''9f3c2a1b-77aa'' True pool_instance =
       (''http://ps9f3c2a1b.pubnub.com'', pool_instance)
   \<and> nextOrigin [] False (snd (nextOrigin ''9f3c2a1b-77aa'' True pool_instance)) =
       (''http://ps1.pubnub.com'', pool_instance\<lparr>currentSubDomain := 1\<rparr>)"
proof -
  have p: "indexOf (providedFQDN pool_instance) ''pubsub.'' \<noteq> - 1"
    by (simp add: pool_instance_def indexOf_def)
  have f: "providedFQDN pool_instance = ''http://pubsub.pubnub.com''"
    by (simp add: pool_instance_def)
  have s: "nextOrigin [] False pool_instance =
      (''http://ps1.pubnub.com'', pool_instance\<lparr>currentSubDomain := 1\<rparr>)"
    by (simp add: nextOrigin_def pool_instance_def indexOf_def toString_def digits.simps Let_def)
  have r: "replace ''http://pubsub.pubnub.com'' ''pubsub''
      (''ps'' @ split_first CHR ''-'' ''9f3c2a1b-77aa'') = ''http://ps9f3c2a1b.pubnub.com''"
    by (simp add: split_first_def)
  show ?thesis
    using nextOrigin_failover_frame [of "''9f3c2a1b-77aa''" pool_instance "[]"] p f s r
    by (simp add: prod_eq_iff)
qed

section \<open>Parameter composition: properties\<close>

lemma map_of_put: "map_of (put k v d) = (map_of d)(k \<mapsto> v)"
  by (induction d) (auto simp: fun_eq_iff)

lemma keys_put: "fst ` set (put k v d) = insert k (fst ` set d)"
proof (induction d)
  case Nil
  show ?case by simp
next
  case (Cons e d)
  obtain k' w where "e = (k', w)" by (cases e)
  then show ?case using Cons.IH by (cases "k = k'") auto
qed

text \<open>The loop over the core parameters never changes a key the object already has.\<close>

lemma merge_keeps:
  assumes "map_of d k = Some v"
  shows "map_of (fold (\<lambda>(key, w) d. if \<not> has_property key d then put key w d else d) C d) k
    = Some v"
  using assms
proof (induction C arbitrary: d)
  case Nil
  then show ?case by simp
next
  case (Cons e C)
  obtain key w where e: "e = (key, w)" by (cases e)
  let ?d = "if \<not> has_property key d then put key w d else d"
  have "map_of ?d k = Some v"
  proof (cases "has_property key d")
    case True
    then show ?thesis using Cons.prems by simp
  next
    case False
    then have "key \<notin> fst ` set d" by (simp add: has_property_def)
    moreover have "k \<in> fst ` set d"
      using Cons.prems by (metis domI dom_map_of_conv_image_fst)
    ultimately have "key \<noteq> k" by blast
    then show ?thesis using False Cons.prems by (simp add: map_of_put)
  qed
  from Cons.IH [OF this] show ?case by (simp add: e)
qed

text \<open>
  It adds a core parameter whose key the object neither has nor inherits, with the
  value of the first entry for that key.
\<close>

lemma merge_adds:
  assumes "map_of C k = Some v" and "k \<notin> fst ` set d" and "k \<notin> set Object_prototype"
  shows "map_of (fold (\<lambda>(key, w) d. if \<not> has_property key d then put key w d else d) C d) k
    = Some v"
  using assms
proof (induction C arbitrary: d)
  case Nil
  then show ?case by simp
next
  case (Cons e C)
  obtain key w where e: "e = (key, w)" by (cases e)
  let ?d = "if \<not> has_property key d then put key w d else d"
  show ?case
  proof (cases "key = k")
    case True
    then have "w = v" using Cons.prems(1) e by simp
    moreover have "\<not> has_property k d"
      using Cons.prems(2,3) by (simp add: has_property_def)
    ultimately have "map_of ?d k = Some v" using True by (simp add: map_of_put)
    from merge_keeps [OF this] show ?thesis by (simp add: e)
  next
    case False
    then have c: "map_of C k = Some v" using Cons.prems(1) e by simp
    have "k \<notin> fst ` set ?d" using False Cons.prems(2) by (simp add: keys_put)
    from Cons.IH [OF c this Cons.prems(3)] show ?thesis by (simp add: e)
  qed
qed

text \<open>
  A core parameter named like a property every object inherits is skipped by the test
  \<open>key in data\<close>.
\<close>

lemma prepareParams_inherited_key:
  "map_of (prepareParams (pool_instance\<lparr>coreParams := [(''toString'', JStr ''x'')]\<rparr>)
     (Some [(''count'', JNum 5)])) ''toString'' = None"
  by (simp add: prepareParams_def pool_instance_def has_property_def Object_prototype_def
      of_key_def)

text \<open>
  Claim C5, as amended. For call parameters \<open>P\<close> and the core parameters of the instance:
  every key of \<open>P\<close> keeps its value and no core parameter overwrites it, except that
  with the instance-id flag enabled the key \<open>instanceid\<close> is set to the keychain's
  instance id in every case; every core parameter whose key is not a key of \<open>P\<close>,
  is not \<open>instanceid\<close> under the flag and is not a name inherited from
  \<open>Object.prototype\<close>, is present with its core value; absent call parameters are
  the empty object.
\<close>

theorem prepareParams_composition:
  "(map_of P k = Some v \<and> \<not> (instanceIdEnabled (config n) \<and> k = ''instanceid'')
      \<longrightarrow> map_of (prepareParams n (Some P)) k = Some v)
   \<and> (map_of (coreParams n) k = Some v \<and> k \<notin> fst ` set P \<and> k \<notin> set Object_prototype
        \<and> \<not> (instanceIdEnabled (config n) \<and> k = ''instanceid'')
      \<longrightarrow> map_of (prepareParams n (Some P)) k = Some v)
   \<and> (instanceIdEnabled (config n)
      \<longrightarrow> map_of (prepareParams n (Some P)) ''instanceid''
            = Some (of_key (instanceId (keychain n))))
   \<and> prepareParams n None = prepareParams n (Some [])"
proof (intro conjI impI)
  assume a: "map_of P k = Some v \<and> \<not> (instanceIdEnabled (config n) \<and> k = ''instanceid'')"
  then have "map_of (fold (\<lambda>(key, w) d. if \<not> has_property key d then put key w d else d)
      (coreParams n) P) k = Some v"
    by (intro merge_keeps) simp
  then show "map_of (prepareParams n (Some P)) k = Some v"
    using a by (auto simp: prepareParams_def Let_def map_of_put)
next
  assume a: "map_of (coreParams n) k = Some v \<and> k \<notin> fst ` set P \<and> k \<notin> set Object_prototype
      \<and> \<not> (instanceIdEnabled (config n) \<and> k = ''instanceid'')"
  then have "map_of (fold (\<lambda>(key, w) d. if \<not> has_property key d then put key w d else d)
      (coreParams n) P) k = Some v"
    by (intro merge_adds) simp_all
  then show "map_of (prepareParams n (Some P)) k = Some v"
    using a by (auto simp: prepareParams_def Let_def map_of_put)
next
  assume "instanceIdEnabled (config n)"
  then show "map_of (prepareParams n (Some P)) ''instanceid''
      = Some (of_key (instanceId (keychain n)))"
    by (simp add: prepareParams_def Let_def map_of_put)
next
  show "prepareParams n None = prepareParams n (Some [])"
    by (simp add: prepareParams_def)
qed

theorem prepareParams_composition_witness:
  "map_of [(''count'', JNum 5)] ''count'' = Some (JNum 5)
   \<and> \<not> (instanceIdEnabled (config pool_instance) \<and> ''count'' = ''instanceid'')
   \<and> map_of (prepareParams pool_instance (Some [(''count'', JNum 5)])) ''count''
       = Some (JNum 5)
   \<and> map_of (coreParams pool_instance) ''pnsdk'' = Some (JStr ''PubNub-JS-Web/4.0.0'')
   \<and> ''pnsdk'' \<notin> fst ` set [(''count'', JNum 5)] \<and> ''pnsdk'' \<notin> set Object_prototype
   \<and> map_of (prepareParams pool_instance (Some [(''count'', JNum 5)])) ''pnsdk''
       = Some (JStr ''PubNub-JS-Web/4.0.0'')
   \<and> instanceIdEnabled (config pool_instance)
   \<and> map_of (prepareParams pool_instance (Some [(''count'', JNum 5)])) ''instanceid''
       = Some (JStr ''inst-1'')"
  using prepareParams_composition
      [of "[(''count'', JNum 5)]" "''count''" "JNum 5" pool_instance]
    prepareParams_composition
      [of "[(''count'', JNum 5)]" "''pnsdk''" "JStr ''PubNub-JS-Web/4.0.0''" pool_instance]
  by (simp add: pool_instance_def Object_prototype_def of_key_def)

text \<open>
  The claim as stated fails: with the instance-id flag enabled, the caller's value for
  the key \<open>instanceid\<close> is replaced by the keychain's instance id.
\<close>

theorem prepareParams_instanceid_counterexample:
  "map_of [(''instanceid'', JStr ''mine'')] ''instanceid'' = Some (JStr ''mine'')
   \<and> map_of (prepareParams pool_instance (Some [(''instanceid'', JStr ''mine'')]))
        ''instanceid'' = Some (JStr ''inst-1'')
   \<and> JStr ''inst-1'' \<noteq> JStr ''mine''"
  by (simp add: prepareParams_def pool_instance_def has_property_def Object_prototype_def
      of_key_def)

section \<open>The signing operations\<close>

text \<open>
  How the other operations report a missing key: \<open>fetchHistory\<close> hands a validation
  error with the name of the key to the callback, once, and sends nothing.
\<close>

lemma fetchHistory_missing_key:
  assumes "\<not> truthy (subscribeKey (keychain n))"
  shows "(fetchHistory encode n channel data :: ('e, 'j) run) =
      (Returned, [Callback (Some (ValidationError ''Missing Subscribe Key'')) None])"
    and "requests (snd (fetchHistory encode n channel data :: ('e, 'j) run)) = 0"
    and "callbacks (snd (fetchHistory encode n channel data :: ('e, 'j) run)) = 1"
  using assms by (simp_all add: fetchHistory_def validationError_def requests_def callbacks_def)

text \<open>
  Whatever the keychain holds, \<open>performGrant\<close> and \<open>performAudit\<close> raise, hand nothing
  to the transport and never invoke the callback.
\<close>

lemma signing_operations_raise:
  "\<exists>e. (performGrant n a d :: ('e, 'j) run) = (Raised e, [])"
  "\<exists>e. (performAudit n a d :: ('e, 'j) run) = (Raised e, [])"
  by (simp_all add: performGrant_def performAudit_def)

text \<open>
  The two replacements keep the length of the signature (no padding is removed), leave
  no \<open>+\<close> and no \<open>/\<close>, and change no other character.
\<close>

lemma url_safe_length: "length (url_safe s) = length s"
  by (simp add: url_safe_def)

lemma url_safe_alphabet: "CHR ''+'' \<notin> set (url_safe s) \<and> CHR ''/'' \<notin> set (url_safe s)"
  by (auto simp: url_safe_def)

lemma url_safe_nth:
  assumes "i < length s"
  shows "url_safe s ! i =
    (if s ! i = CHR ''+'' then CHR ''-'' else if s ! i = CHR ''/'' then CHR ''_'' else s ! i)"
  using assms by (simp add: url_safe_def)

lemma sign_input_prefix_grant:
  "sign_input_prefix pool_instance ''grant'' =
     ''sub-c-1'' @ [CHR 0x0A] @ ''pub-c-1'' @ [CHR 0x0A] @ ''grant'' @ [CHR 0x0A]"
  by (simp add: sign_input_prefix_def key_string_def pool_instance_def)

text \<open>
  Claim C1, evaluated. With the subscribe, publish and secret keys \<open>sub-c-1\<close>,
  \<open>pub-c-1\<close> and \<open>sec-c-1\<close>, an auth key and no extra parameters, \<open>performGrant\<close>
  raises at \<open>this._networking.prepareParams\<close>, before any signature is computed: no
  request with a \<open>signature\<close> parameter leaves the instance.
\<close>

theorem performGrant_never_signs:
  "(performGrant pool_instance (Some ''auth-1'') (Some []) :: ('e, 'j) run) =
     (Raised (TypeError ''this._networking is undefined''), [])
   \<and> requests (snd (performGrant pool_instance (Some ''auth-1'') (Some []) :: ('e, 'j) run)) = 0"
  by (simp add: performGrant_def pool_instance_def truthy_def requests_def)

text \<open>
  Claim C2, evaluated. With the secret key absent, \<open>performGrant\<close> raises a
  \<open>TypeError\<close> from the call of the undefined \<open>this._error\<close> and \<open>performAudit\<close> a
  \<open>ReferenceError\<close> from its first statement. Neither invokes the transport; neither
  yields a validation error that names the key.
\<close>

theorem signing_missing_secret_key:
  "(performGrant (pool_instance\<lparr>keychain := (keychain pool_instance)\<lparr>secretKey := None\<rparr>\<rparr>)
       (Some ''auth-1'') (Some []) :: ('e, 'j) run) =
     (Raised (TypeError ''this._error is not a function''), [])
   \<and> (performAudit (pool_instance\<lparr>keychain := (keychain pool_instance)\<lparr>secretKey := None\<rparr>\<rparr>)
       (Some ''auth-1'') (Some []) :: ('e, 'j) run) =
     (Raised (ReferenceError ''args is not defined''), [])"
  by (simp add: performGrant_def performAudit_def pool_instance_def truthy_def)

text \<open>
  Claim C6, evaluated. With all three keys present and no auth key supplied, both
  signing operations raise; no parameter object is canonicalized or signed.
\<close>

theorem signing_without_auth_key_raises:
  "(performGrant pool_instance None (Some []) :: ('e, 'j) run) =
     (Raised (TypeError ''this._networking is undefined''), [])
   \<and> (performAudit pool_instance None (Some []) :: ('e, 'j) run) =
     (Raised (ReferenceError ''args is not defined''), [])"
  by (simp add: performGrant_def performAudit_def pool_instance_def truthy_def)

section \<open>Completion\<close>

text \<open>
  When the handler of \<open>_abstractedXDR\<close> returns, it has invoked the callback once; when
  it raises, it has not invoked it.
\<close>

lemma abstractedXDR_end_callbacks:
  "callbacks (snd (abstractedXDR_end parse err resp)) =
     (if fst (abstractedXDR_end parse err resp) = Returned then 1 else 0)"
  by (simp add: abstractedXDR_end_def callbacks_def split: option.splits)

lemma abstractedXDR_end_parsed:
  assumes "JSON_parse parse (resp_text r) = Some j" and "resp_error r = None"
  shows "abstractedXDR_end parse None (Some r) = (Returned, [Callback None (Some (Parsed j))])"
  using assms by (simp add: abstractedXDR_end_def)

lemma fetchHistory_completes_once:
  assumes "fst (answered parse err resp (fetchHistory encode n channel data)) = Returned"
  shows "callbacks (snd (answered parse err resp (fetchHistory encode n channel data))) = 1"
proof (cases "truthy (subscribeKey (keychain n))")
  case False
  then show ?thesis
    by (simp add: answered_def fetchHistory_def validationError_def callbacks_def)
next
  case True
  obtain c effs where h: "abstractedXDR_end parse err resp = (c, effs)"
    by (cases "abstractedXDR_end parse err resp")
  have r: "answered parse err resp (fetchHistory encode n channel data) =
      (c, xdr n (with_auth n (prepareParams n data)) (fetchHistory_url encode n channel) None
          # effs)"
    using True h by (simp add: answered_def fetchHistory_def xdr_def Let_def)
  have "c = Returned" using assms r by simp
  then have "callbacks effs = 1"
    using abstractedXDR_end_callbacks [of parse err resp] h by simp
  then show ?thesis using r by (simp add: callbacks_def xdr_def)
qed

text \<open>
  Claim C7, evaluated. \<open>performLeave\<close> on an instance whose \<open>sendBeacon\<close> returns false:
  the beacon is attempted, the call returns, nothing is handed to the transport, and
  the completion callback is invoked zero times.
\<close>

theorem performLeave_beacon_refused:
  "fst (performLeave encode buildURL (pool_instance\<lparr>sendBeacon := Some (\<lambda>u. False)\<rparr>)
        ''lobby'' None :: ('e, 'j) run \<times> networking) =
     (Returned,
      [Beacon (buildURL
         [JStr ''http://ps1.pubnub.com'', JStr ''v2'', JStr ''presence'', JStr ''sub_key'',
          JStr ''sub-c-1'', JStr ''channel'', JStr (encode (JStr ''lobby'')), JStr ''leave'']
         [(''pnsdk'', JStr ''PubNub-JS-Web/4.0.0''), (''instanceid'', JStr ''inst-1''),
          (''uuid'', JStr ''u-1'')])])
   \<and> callbacks (snd (answered parse err resp
        (fst (performLeave encode buildURL (pool_instance\<lparr>sendBeacon := Some (\<lambda>u. False)\<rparr>)
           ''lobby'' None :: ('e, 'j) run \<times> networking)))) = 0"
  by (simp add: performLeave_def performLeave_url_def pool_instance_def truthy_def
      prepareParams_def has_property_def Object_prototype_def of_key_def with_auth_def
      with_uuid_def nextOrigin_def indexOf_def toString_def digits.simps Let_def
      answered_def callbacks_def)

text \<open>
  With a \<open>sendBeacon\<close> that returns true the same call invokes the callback once, with
  the synthesized success.
\<close>

lemma performLeave_beacon_accepted:
  "snd (fst (performLeave encode buildURL (pool_instance\<lparr>sendBeacon := Some (\<lambda>u. True)\<rparr>)
        ''lobby'' None :: ('e, 'j) run \<times> networking)) =
     [Beacon (buildURL
         [JStr ''http://ps1.pubnub.com'', JStr ''v2'', JStr ''presence'', JStr ''sub_key'',
          JStr ''sub-c-1'', JStr ''channel'', JStr (encode (JStr ''lobby'')), JStr ''leave'']
         [(''pnsdk'', JStr ''PubNub-JS-Web/4.0.0''), (''instanceid'', JStr ''inst-1''),
          (''uuid'', JStr ''u-1'')]),
      Callback None (Some LeaveOK)]"
  by (simp add: performLeave_def performLeave_url_def pool_instance_def truthy_def
      prepareParams_def has_property_def Object_prototype_def of_key_def with_auth_def
      with_uuid_def nextOrigin_def indexOf_def toString_def digits.simps Let_def)

text \<open>
  Claim C8, evaluated. The transport succeeds (\<open>err\<close> is null, the response carries no
  error) with the body \<open><html>\<close>, which is not a JSON text: the handler raises the
  \<open>SyntaxError\<close> of \<open>JSON.parse\<close> and the callback of the request is never invoked.
\<close>

theorem unparsable_body_raises:
  "abstractedXDR_end parse None (Some \<lparr>resp_error = None, resp_text = ''<html>''\<rparr>) =
     (Raised (SyntaxError ''JSON.parse''), [])
   \<and> callbacks (snd (answered parse None (Some \<lparr>resp_error = None, resp_text = ''<html>''\<rparr>)
        (fetchHistory encode pool_instance ''lobby'' None))) = 0"
  by (simp add: abstractedXDR_end_def JSON_parse_def json_whitespace_def json_value_start_def
      answered_def callbacks_def fetchHistory_def pool_instance_def truthy_def xdr_def
      validationError_def)

section \<open>Identifiers in the URL path\<close>

text \<open>
  \<open>fetchHistory\<close>, \<open>performLeave\<close> and \<open>fetchWhereNow\<close> pass the channel or the UUID
  through \<open>utils.encode\<close> before it enters the URL array.
\<close>

lemma encoded_identifiers:
  "fetchHistory_url encode n channel ! 6 = JStr (encode (JStr channel))"
  "performLeave_url encode origin n channel ! 6 = JStr (encode (JStr channel))"
  "fetchWhereNow_url encode n uuid ! 6 = JStr (encode (of_key uuid))"
  by (simp_all add: fetchHistory_url_def performLeave_url_def fetchWhereNow_url_def)

text \<open>\<open>setState\<close> and \<open>fetchState\<close> place them in the array as they are.\<close>

lemma raw_identifiers:
  "setState_url n channel ! 6 = JStr channel"
  "setState_url n channel ! 8 = of_key (UUID (keychain n))"
  "fetchState_url n uuid channel ! 6 = JStr channel"
  "fetchState_url n uuid channel ! 8 = of_key uuid"
  by (simp_all add: setState_url_def fetchState_url_def)

text \<open>
  Claim C9, evaluated. For the channel \<open>a/b\<close> and the UUID \<open>u/1\<close> the URL arrays of
  \<open>setState\<close> and \<open>fetchState\<close> hold the identifiers unencoded, and the URL handed to
  the transport by \<open>fetchState\<close> has them as the path segments \<open>a\<close>, \<open>b\<close> and \<open>u\<close>,
  \<open>1\<close>.
\<close>

theorem setState_fetchState_raw_segments:
  "setState_url pool_instance ''a/b'' =
     [JStr ''http://ps18.pubnub.com'', JStr ''v2'', JStr ''presence'', JStr ''sub-key'',
      JStr ''sub-c-1'', JStr ''channel'', JStr ''a/b'', JStr ''uuid'', JStr ''u-1'', JStr ''data'']
   \<and> fetchState_url pool_instance (Some ''u/1'') ''a/b'' =
     [JStr ''http://ps18.pubnub.com'', JStr ''v2'', JStr ''presence'', JStr ''sub-key'',
      JStr ''sub-c-1'', JStr ''channel'', JStr ''a/b'', JStr ''uuid'', JStr ''u/1'']
   \<and> (fetchState pool_instance (Some ''u/1'') ''a/b'' None :: ('e, 'j) run) =
     (Returned,
      [Request GET ''http://ps18.pubnub.com/v2/presence/sub-key/sub-c-1/channel/a/b/uuid/u/1''
         [(''pnsdk'', JStr ''PubNub-JS-Web/4.0.0''), (''instanceid'', JStr ''inst-1'')] 15000])"
  by (simp add: setState_url_def fetchState_url_def fetchState_def pool_instance_def truthy_def
      prepareParams_def has_property_def Object_prototype_def of_key_def with_auth_def
      xdr_def to_segment_def Let_def)

end
